theory Spec2Isabelle
  imports Main "HOL-Library.Sublist"
begin

section \<open>Python values used by \<^verbatim>\<open>ci/ci.py\<close>\<close>

text \<open>
  The exceptions that the modelled code can see. Every call into the container engine, the
  HTTP client or the browser driver may raise; the model returns the exception as a value.
  The classes are kept apart as far as the \<^verbatim>\<open>except\<close> clauses of the source tell them apart.
\<close>

datatype exn =
    KeyError
  | IndexError
  | ValueError
  | UnboundLocalError
  | AttributeError
  | DockerException
  | RequestsTimeout
  | RequestsConnectionError
  | SeleniumTimeoutException
  | WebDriverException
  | InvalidSchema
  | PyException string

text \<open>\<^verbatim>\<open>sub in s\<close> on Python strings: \<^verbatim>\<open>sub\<close> occurs in \<^verbatim>\<open>s\<close> as a contiguous piece.\<close>

definition str_in :: "string \<Rightarrow> string \<Rightarrow> bool" where
  "str_in sub s = sublist sub s"

text \<open>\<^verbatim>\<open>s.split(sep)\<close> for a separator of one character: never the empty list.\<close>

fun split_chr :: "char \<Rightarrow> string \<Rightarrow> string list" where
  "split_chr sep [] = [[]]"
| "split_chr sep (c # cs) =
     (if c = sep then [] # split_chr sep cs
      else (case split_chr sep cs of
              [] \<Rightarrow> [[c]]
            | x # xs \<Rightarrow> (c # x) # xs))"

section \<open>\<^verbatim>\<open>CI.convert_env\<close>\<close>

text \<open>
  The body shared by both branches of \<^verbatim>\<open>convert_env\<close>:
  \<^verbatim>\<open>var = varpair.split('='); env_dict[var[0]] = var[1]\<close>.
  \<^verbatim>\<open>var[0]\<close> always exists; \<^verbatim>\<open>var[1]\<close> raises IndexError when the pair has no \<^verbatim>\<open>=\<close>.
\<close>

definition set_pair :: "(string \<rightharpoonup> string) \<Rightarrow> string \<Rightarrow> exn + (string \<rightharpoonup> string)" where
  "set_pair env_dict varpair =
     (case split_chr CHR ''='' varpair of
        k # v # _ \<Rightarrow> Inr (env_dict(k \<mapsto> v))
      | _ \<Rightarrow> Inl IndexError)"

text \<open>The \<^verbatim>\<open>for varpair in envs.split('|')\<close> loop; the first raise ends it.\<close>

fun set_pairs :: "(string \<rightharpoonup> string) \<Rightarrow> string list \<Rightarrow> exn + (string \<rightharpoonup> string)" where
  "set_pairs env_dict [] = Inr env_dict"
| "set_pairs env_dict (varpair # rest) =
     (case set_pair env_dict varpair of
        Inl e \<Rightarrow> Inl e
      | Inr env_dict' \<Rightarrow> set_pairs env_dict' rest)"

text \<open>The argument is \<^verbatim>\<open>None\<close> (the default) or a string; both \<^verbatim>\<open>None\<close> and \<^verbatim>\<open>''\<close> are falsy.\<close>

definition convert_env :: "string option \<Rightarrow> exn + (string \<rightharpoonup> string)" where
  "convert_env envs =
     (case envs of
        None \<Rightarrow> Inr Map.empty
      | Some s \<Rightarrow>
          if s = [] then Inr Map.empty
          else if str_in ''|'' s then set_pairs Map.empty (split_chr CHR ''|'' s)
          else set_pair Map.empty s)"

text \<open>What one pair contributes: the text before the first \<^verbatim>\<open>=\<close>, and the text between
  the first and the second \<^verbatim>\<open>=\<close> (up to the end when there is no second one).\<close>

definition pair_key :: "string \<Rightarrow> string" where
  "pair_key varpair = takeWhile (\<lambda>c. c \<noteq> CHR ''='') varpair"

definition pair_value :: "string \<Rightarrow> string" where
  "pair_value varpair =
     takeWhile (\<lambda>c. c \<noteq> CHR ''='') (tl (dropWhile (\<lambda>c. c \<noteq> CHR ''='') varpair))"

section \<open>ASCII case mapping\<close>

text \<open>\<^verbatim>\<open>str.upper()\<close> and \<^verbatim>\<open>str.lower()\<close> on ASCII text.\<close>

definition upper_chr :: "char \<Rightarrow> char" where
  "upper_chr c =
     (case map_of (zip ''abcdefghijklmnopqrstuvwxyz'' ''ABCDEFGHIJKLMNOPQRSTUVWXYZ'') c of
        Some d \<Rightarrow> d
      | None \<Rightarrow> c)"

definition lower_chr :: "char \<Rightarrow> char" where
  "lower_chr c =
     (case map_of (zip ''ABCDEFGHIJKLMNOPQRSTUVWXYZ'' ''abcdefghijklmnopqrstuvwxyz'') c of
        Some d \<Rightarrow> d
      | None \<Rightarrow> c)"

definition str_upper :: "string \<Rightarrow> string" where
  "str_upper s = map upper_chr s"

definition str_lower :: "string \<Rightarrow> string" where
  "str_lower s = map lower_chr s"

section \<open>The readiness test of \<^verbatim>\<open>CI.container_test\<close>\<close>

definition marker_services :: string where
  "marker_services = ''[services.d] done.''"

definition marker_lsio :: string where
  "marker_lsio = ''[ls.io-init] done.''"

text \<open>\<^verbatim>\<open>'[services.d] done.' in logblob or '[ls.io-init] done.' in logblob\<close>\<close>

definition logs_ready :: "string \<Rightarrow> bool" where
  "logs_ready logblob = (str_in marker_services logblob \<or> str_in marker_lsio logblob)"

section \<open>The state of a \<^verbatim>\<open>CI\<close> object\<close>

text \<open>The third field of a test entry is a text or the caught exception object.\<close>

datatype detail = Text string | Err exn

text \<open>A test entry is the list \<^verbatim>\<open>[name, outcome, detail]\<close>.\<close>

type_synonym test_entry = "string \<times> string \<times> detail"

text \<open>The dictionary appended to \<^verbatim>\<open>report_containers\<close>, with its keys
  \<^verbatim>\<open>tag\<close>, \<^verbatim>\<open>logs\<close>, \<^verbatim>\<open>sysinfo\<close>, \<^verbatim>\<open>build_version\<close>, \<^verbatim>\<open>tag_tests\<close>.\<close>

record container_report =
  rep_tag :: string
  rep_logs :: string
  rep_sysinfo :: string
  rep_build_version :: string
  rep_tag_tests :: "test_entry list"

text \<open>The attributes of \<^verbatim>\<open>self\<close> (\<^verbatim>\<open>image\<close> is \<open>image_name\<close> here).\<close>

record ci =
  tag_report_tests :: "test_entry list"
  report_containers :: "container_report list"
  report_status :: string
  dockerenv :: "string \<rightharpoonup> string"
  webauth :: string
  webpath :: string
  screenshot :: string
  screenshot_delay :: string
  port :: string
  ssl :: string
  region :: string
  bucket :: string
  test_container_delay :: string
  image_name :: string
  base :: string
  s3_key :: string
  s3_secret :: string
  meta_tag :: string
  tags_env :: string
  tags :: "string list"
  outdir :: string

section \<open>The HTTP session of the \<^verbatim>\<open>requests\<close> library\<close>

text \<open>The retry configuration of an adapter (\<^verbatim>\<open>urllib3.util.retry.Retry\<close>).\<close>

record retry =
  total :: nat
  backoff_factor :: nat
  status_forcelist :: "nat list"

text \<open>\<^verbatim>\<open>HTTPAdapter()\<close> without arguments: no retry.\<close>

definition default_retries :: retry where
  "default_retries = \<lparr>total = 0, backoff_factor = 0, status_forcelist = []\<rparr>"

text \<open>\<^verbatim>\<open>Session.adapters\<close>: an ordered dictionary from URL prefix to adapter; an adapter is
  represented by its \<^verbatim>\<open>max_retries\<close>.\<close>

type_synonym adapters = "(string \<times> retry) list"

text \<open>Assignment to a key of an ordered dictionary: in place when the key is there, at the
  end otherwise.\<close>

definition od_set :: "string \<Rightarrow> retry \<Rightarrow> adapters \<Rightarrow> adapters" where
  "od_set k v od =
     (if k \<in> fst ` set od then map (\<lambda>(k', v'). if k' = k then (k', v) else (k', v')) od
      else od @ [(k, v)])"

text \<open>\<^verbatim>\<open>Session.mount\<close>: store the adapter, then move every shorter prefix behind it.\<close>

definition mount :: "string \<Rightarrow> retry \<Rightarrow> adapters \<Rightarrow> adapters" where
  "mount pfx adapter ads =
     (let ads' = od_set pfx adapter ads
      in filter (\<lambda>(k, _). \<not> length k < length pfx) ads' @
         filter (\<lambda>(k, _). length k < length pfx) ads')"

text \<open>\<^verbatim>\<open>requests.Session()\<close> mounts a default adapter for both schemes.\<close>

definition new_session :: adapters where
  "new_session = mount ''http://'' default_retries (mount ''https://'' default_retries [])"

text \<open>\<^verbatim>\<open>Session.get_adapter\<close>: the first prefix that the lowered URL starts with.\<close>

fun get_adapter :: "adapters \<Rightarrow> string \<Rightarrow> exn + retry" where
  "get_adapter [] url = Inl InvalidSchema"
| "get_adapter ((pfx, adapter) # rest) url =
     (if prefix (str_lower pfx) (str_lower url) then Inr adapter else get_adapter rest url)"

section \<open>The world outside: container engine, clock, browser\<close>

datatype handle = Subject | Tester

text \<open>The calls issued to the outside, in order.\<close>

datatype event =
    Containers_run string "string \<rightharpoonup> string"
  | Logs handle
  | Remove handle
  | Reload handle
  | Exec_run handle string
  | Sleep nat
  | Chrome_start
  | Set_page_load_timeout nat
  | Session_get retry string
  | Driver_get string
  | Screenshot_file string
  | Driver_quit

text \<open>
  How the outside answers during the test of one tag. A call that returns nothing answers
  \<open>None\<close> or the exception it raises.
  \<^item> \<open>logs_result k\<close>, \<open>logs_cost k\<close>: the answer of the \<open>k\<close>-th
    \<^verbatim>\<open>container.logs().decode('utf-8')\<close> and the seconds it takes;
  \<^item> \<open>labels_build_version\<close>: \<^verbatim>\<open>container.attrs['Config']['Labels']['build_version']\<close>;
  \<^item> \<open>exec_result\<close>: \<^verbatim>\<open>container.exec_run(command)\<close> and \<^verbatim>\<open>info[1].decode('utf-8')\<close>;
  \<^item> \<open>int_result\<close>: the builtin \<^verbatim>\<open>int\<close> on a string;
  \<^item> \<open>subject_ip\<close>, \<open>tester_ip\<close>: the bridge address looked up in the reloaded attributes;
  \<^item> \<open>chrome_result\<close>: building the options and \<^verbatim>\<open>webdriver.Chrome\<close>;
  \<^item> \<open>session_get_result\<close>: the HTTP request, given the retry configuration of the adapter
    that serves the URL.
\<close>

record engine =
  run_subject :: "exn option"
  logs_result :: "nat \<Rightarrow> exn + string"
  logs_cost :: "nat \<Rightarrow> nat"
  labels_build_version :: "exn + string"
  exec_result :: "string \<Rightarrow> exn + string"
  remove_subject :: "exn option"
  int_result :: "string \<Rightarrow> exn + int"
  reload_subject :: "exn option"
  subject_ip :: "exn + string"
  run_tester :: "exn option"
  reload_tester :: "exn option"
  tester_ip :: "exn + string"
  chrome_result :: "exn option"
  set_timeout_result :: "exn option"
  session_get_result :: "retry \<Rightarrow> string \<Rightarrow> exn option"
  driver_get_result :: "string \<Rightarrow> exn option"
  screenshot_file_result :: "string \<Rightarrow> exn option"
  driver_quit_result :: "exn option"
  remove_tester :: "exn option"

text \<open>The clock in seconds, the calls issued so far, and how often the logs were read.\<close>

record world =
  now :: nat
  trace :: "event list"
  logs_calls :: nat

definition emit :: "event \<Rightarrow> world \<Rightarrow> world" where
  "emit ev w = w\<lparr>trace := trace w @ [ev]\<rparr>"

definition containers_run ::
  "engine \<Rightarrow> handle \<Rightarrow> string \<Rightarrow> (string \<rightharpoonup> string) \<Rightarrow> world \<Rightarrow> exn option \<times> world" where
  "containers_run E h img environment w =
     ((case h of Subject \<Rightarrow> run_subject E | Tester \<Rightarrow> run_tester E),
      emit (Containers_run img environment) w)"

definition container_logs :: "engine \<Rightarrow> world \<Rightarrow> (exn + string) \<times> world" where
  "container_logs E w =
     (logs_result E (logs_calls w),
      w\<lparr>now := now w + logs_cost E (logs_calls w),
        trace := trace w @ [Logs Subject],
        logs_calls := Suc (logs_calls w)\<rparr>)"

definition container_remove :: "engine \<Rightarrow> handle \<Rightarrow> world \<Rightarrow> exn option \<times> world" where
  "container_remove E h w =
     ((case h of Subject \<Rightarrow> remove_subject E | Tester \<Rightarrow> remove_tester E),
      emit (Remove h) w)"

definition container_reload :: "engine \<Rightarrow> handle \<Rightarrow> world \<Rightarrow> exn option \<times> world" where
  "container_reload E h w =
     ((case h of Subject \<Rightarrow> reload_subject E | Tester \<Rightarrow> reload_tester E),
      emit (Reload h) w)"

definition exec_run :: "engine \<Rightarrow> string \<Rightarrow> world \<Rightarrow> (exn + string) \<times> world" where
  "exec_run E command w = (exec_result E command, emit (Exec_run Subject command) w)"

text \<open>\<^verbatim>\<open>time.sleep(n)\<close>\<close>

definition sleep :: "nat \<Rightarrow> world \<Rightarrow> world" where
  "sleep n w = (emit (Sleep n) w)\<lparr>now := now w + n\<rparr>"

text \<open>\<^verbatim>\<open>time.sleep(int(s))\<close>: \<^verbatim>\<open>int\<close> may raise, and a negative length raises ValueError.\<close>

definition sleep_int :: "engine \<Rightarrow> string \<Rightarrow> world \<Rightarrow> exn option \<times> world" where
  "sleep_int E s w =
     (case int_result E s of
        Inl e \<Rightarrow> (Some e, w)
      | Inr n \<Rightarrow> if n < 0 then (Some ValueError, w) else (None, sleep (nat n) w))"

section \<open>\<^verbatim>\<open>CI.container_test\<close>: the log watch\<close>

text \<open>How the \<^verbatim>\<open>while time.time() < t_end\<close> loop ends: in its \<^verbatim>\<open>except\<close> branch,
  or past the loop with the value of \<^verbatim>\<open>logsfound\<close>.\<close>

datatype watch = Raised exn | Done bool

function watch_logs :: "engine \<Rightarrow> nat \<Rightarrow> world \<Rightarrow> watch \<times> world" where
  "watch_logs E t_end w =
     (if now w < t_end then
        (case container_logs E w of
           (Inl e, w1) \<Rightarrow> (Raised e, w1)
         | (Inr logblob, w1) \<Rightarrow>
             if logs_ready logblob then (Done True, w1)
             else watch_logs E t_end (sleep 1 w1))
      else (Done False, w))"
  by pat_completeness auto
termination
  by (relation "measure (\<lambda>(E, t_end, w). t_end - now w)")
     (auto simp: container_logs_def sleep_def emit_def)

section \<open>\<^verbatim>\<open>CI.container_test._endtest\<close>\<close>

definition add_test :: "test_entry \<Rightarrow> ci \<Rightarrow> ci" where
  "add_test t s = s\<lparr>tag_report_tests := tag_report_tests s @ [t]\<rparr>"

definition endtest ::
  "engine \<Rightarrow> string \<Rightarrow> string \<Rightarrow> string \<Rightarrow> ci \<Rightarrow> world \<Rightarrow> exn option \<times> ci \<times> world" where
  "endtest E tag build_version packages s w =
     (case container_logs E w of
        (Inl e, w1) \<Rightarrow> (Some e, s, w1)
      | (Inr logblob, w1) \<Rightarrow>
          (case container_remove E Subject w1 of
             (Some e, w2) \<Rightarrow> (Some e, s, w2)
           | (None, w2) \<Rightarrow>
               (None,
                s\<lparr>report_containers := report_containers s @
                     [\<lparr>rep_tag = tag, rep_logs = logblob, rep_sysinfo = packages,
                       rep_build_version = build_version,
                       rep_tag_tests = tag_report_tests s\<rparr>],
                   tag_report_tests := []\<rparr>,
                w2)))"

section \<open>\<^verbatim>\<open>CI.take_screenshot\<close>\<close>

definition webdriver_chrome :: "engine \<Rightarrow> world \<Rightarrow> exn option \<times> world" where
  "webdriver_chrome E w = (chrome_result E, emit Chrome_start w)"

definition set_page_load_timeout :: "engine \<Rightarrow> nat \<Rightarrow> world \<Rightarrow> exn option \<times> world" where
  "set_page_load_timeout E n w = (set_timeout_result E, emit (Set_page_load_timeout n) w)"

text \<open>\<^verbatim>\<open>session.get(url)\<close>: the session picks the adapter for the URL, and the request runs
  under that adapter's retry configuration.\<close>

definition session_get :: "engine \<Rightarrow> adapters \<Rightarrow> string \<Rightarrow> world \<Rightarrow> exn option \<times> world" where
  "session_get E session url w =
     (case get_adapter session url of
        Inl e \<Rightarrow> (Some e, w)
      | Inr adapter \<Rightarrow> (session_get_result E adapter url, emit (Session_get adapter url) w))"

definition driver_get :: "engine \<Rightarrow> string \<Rightarrow> world \<Rightarrow> exn option \<times> world" where
  "driver_get E url w = (driver_get_result E url, emit (Driver_get url) w)"

definition get_screenshot_as_file :: "engine \<Rightarrow> string \<Rightarrow> world \<Rightarrow> exn option \<times> world" where
  "get_screenshot_as_file E path w = (screenshot_file_result E path, emit (Screenshot_file path) w)"

definition driver_quit :: "engine \<Rightarrow> world \<Rightarrow> exn option \<times> world" where
  "driver_quit E w = (driver_quit_result E, emit Driver_quit w)"

text \<open>The body of the \<^verbatim>\<open>try\<close>: the first raise ends it.\<close>

definition screenshot_try ::
  "engine \<Rightarrow> string \<Rightarrow> string \<Rightarrow> string \<Rightarrow> ci \<Rightarrow> world \<Rightarrow> exn option \<times> ci \<times> world" where
  "screenshot_try E tag proto testerendpoint s w =
     (case webdriver_chrome E w of
        (Some e, w1) \<Rightarrow> (Some e, s, w1)
      | (None, w1) \<Rightarrow>
     (case set_page_load_timeout E 60 w1 of
        (Some e, w2) \<Rightarrow> (Some e, s, w2)
      | (None, w2) \<Rightarrow>
     (let retries = \<lparr>total = 10, backoff_factor = 2, status_forcelist = [502, 503, 504]\<rparr>;
          session = mount proto retries new_session
      in
     (case session_get E session testerendpoint w2 of
        (Some e, w3) \<Rightarrow> (Some e, s, w3)
      | (None, w3) \<Rightarrow>
     (case driver_get E testerendpoint w3 of
        (Some e, w4) \<Rightarrow> (Some e, s, w4)
      | (None, w4) \<Rightarrow>
     (case sleep_int E (screenshot_delay s) w4 of
        (Some e, w5) \<Rightarrow> (Some e, s, w5)
      | (None, w5) \<Rightarrow>
     (case get_screenshot_as_file E (outdir s @ ''/'' @ tag @ ''.png'') w5 of
        (Some e, w6) \<Rightarrow> (Some e, s, w6)
      | (None, w6) \<Rightarrow>
     (case driver_quit E w6 of
        (r, w7) \<Rightarrow> (r, add_test (''Get screenshot'', ''PASS'', Text ''-'') s, w7)))))))))"

text \<open>The \<^verbatim>\<open>except\<close> clauses in their order; the last one takes every exception.\<close>

definition screenshot_failure :: "exn \<Rightarrow> string" where
  "screenshot_failure error =
     (if error \<in> {RequestsTimeout, RequestsConnectionError, KeyError}
      then ''FAIL CONNECTION ERROR''
      else if error = SeleniumTimeoutException then ''FAIL TIMEOUT''
      else ''FAIL UNKNOWN'')"

definition take_screenshot ::
  "engine \<Rightarrow> string \<Rightarrow> ci \<Rightarrow> world \<Rightarrow> exn option \<times> ci \<times> world" where
  "take_screenshot E tag s w =
     (let proto = (if str_upper (ssl s) = ''TRUE'' then ''https'' else ''http'') in
     (case container_reload E Subject w of
        (Some e, w1) \<Rightarrow> (Some e, s, w1)
      | (None, w1) \<Rightarrow>
     (case subject_ip E of
        Inl e \<Rightarrow> (Some e, s, w1)
      | Inr ip \<Rightarrow>
     (let endpoint = proto @ ''://'' @ webauth s @ ''@'' @ ip @ '':'' @ port s @ webpath s in
     (case containers_run E Tester ''lsiodev/tester:latest'' [''URL'' \<mapsto> endpoint] w1 of
        (Some e, w2) \<Rightarrow> (Some e, s, w2)
      | (None, w2) \<Rightarrow>
     (case sleep_int E (screenshot_delay s) w2 of
        (Some e, w3) \<Rightarrow> (Some e, s, w3)
      | (None, w3) \<Rightarrow>
     (case container_reload E Tester w3 of
        (Some e, w4) \<Rightarrow> (Some e, s, w4)
      | (None, w4) \<Rightarrow>
     (case tester_ip E of
        Inl e \<Rightarrow> (Some e, s, w4)
      | Inr testerip \<Rightarrow>
     (let testerendpoint = ''http://'' @ testerip @ '':3000'' in
     (case screenshot_try E tag proto testerendpoint s w4 of
        (r, s1, w5) \<Rightarrow>
          (let s2 = (case r of
                       None \<Rightarrow> s1
                     | Some error \<Rightarrow>
                         add_test (''Get screenshot'', screenshot_failure error, Err error) s1)
           in (case container_remove E Tester w5 of (r', w6) \<Rightarrow> (r', s2, w6)))))))))))))"

section \<open>\<^verbatim>\<open>CI.container_test\<close>\<close>

text \<open>The \<^verbatim>\<open>if\<close>/\<^verbatim>\<open>elif\<close> chain over \<^verbatim>\<open>self.base\<close> has no \<^verbatim>\<open>else\<close>:
  \<open>None\<close> is the local variable \<^verbatim>\<open>command\<close> left unbound.\<close>

definition package_command :: "ci \<Rightarrow> string option" where
  "package_command s =
     (if base s = ''alpine'' then Some ''apk info -v''
      else if base s \<in> {''debian'', ''ubuntu''} then Some ''apt list''
      else if base s = ''fedora'' then Some ''rpm -qa''
      else if base s = ''arch'' then Some ''pacman -Q''
      else None)"

text \<open>The two statements of the \<^verbatim>\<open>try\<close> of the package dump; reading the unbound
  \<^verbatim>\<open>command\<close> raises before anything is sent to the container.\<close>

definition dump_packages :: "engine \<Rightarrow> string option \<Rightarrow> world \<Rightarrow> (exn + string) \<times> world" where
  "dump_packages E command w =
     (case command of
        None \<Rightarrow> (Inl UnboundLocalError, w)
      | Some c \<Rightarrow> exec_run E c w)"

definition fail_status :: "ci \<Rightarrow> ci" where
  "fail_status s = s\<lparr>report_status := ''FAIL''\<rparr>"

definition container_test ::
  "engine \<Rightarrow> string \<Rightarrow> ci \<Rightarrow> world \<Rightarrow> exn option \<times> ci \<times> world" where
  "container_test E tag s w =
     (case containers_run E Subject (image_name s @ '':'' @ tag) (dockerenv s) w of
        (Some e, w1) \<Rightarrow> (Some e, s, w1)
      | (None, w1) \<Rightarrow>
     (case watch_logs E (now w1 + 60 * 5) w1 of
        (Raised e, w2) \<Rightarrow>
          endtest E tag ''ERROR'' ''ERROR''
            (fail_status (add_test (''Container startup'', ''FAIL'', Text ''INIT NOT FINISHED'') s))
            w2
      | (Done logsfound, w2) \<Rightarrow>
     (case labels_build_version E of
        Inl error \<Rightarrow>
          endtest E tag ''ERROR'' ''ERROR''
            (fail_status (add_test (''Get build version'', ''FAIL'', Err error) s)) w2
      | Inr build_version \<Rightarrow>
     (let s1 = add_test (''Get build version'', ''PASS'', Text ''-'') s in
      if \<not> logsfound then
        endtest E tag build_version ''ERROR''
          (fail_status (add_test (''Container startup'', ''FAIL'', Text ''INIT NOT FINISHED'') s1))
          w2
      else
     (let s2 = add_test (''Container startup'', ''PASS'', Text ''-'') s1 in
     (case dump_packages E (package_command s2) w2 of
        (Inl error, w3) \<Rightarrow>
          endtest E tag build_version ''ERROR''
            (fail_status (add_test (''Dump package info'', ''FAIL'', Err error) s2)) w3
      | (Inr packages, w3) \<Rightarrow>
     (let s3 = add_test (''Dump package info'', ''PASS'', Text ''-'') s2 in
     (case sleep_int E (test_container_delay s3) w3 of
        (Some e, w4) \<Rightarrow> (Some e, s3, w4)
      | (None, w4) \<Rightarrow>
          if screenshot s3 = ''true'' then
            (case take_screenshot E tag s3 w4 of
               (Some e, s4, w5) \<Rightarrow> (Some e, s4, w5)
             | (None, s4, w5) \<Rightarrow> endtest E tag build_version packages s4 w5)
          else endtest E tag build_version packages s3 w4))))))))"

section \<open>\<^verbatim>\<open>CI.check_env\<close> and \<^verbatim>\<open>CI.__init__\<close>\<close>

text \<open>\<^verbatim>\<open>os.environ.get(key, default)\<close>\<close>

definition environ_get :: "(string \<rightharpoonup> string) \<Rightarrow> string \<Rightarrow> string \<Rightarrow> string" where
  "environ_get environ k d = (case environ k of None \<Rightarrow> d | Some v \<Rightarrow> v)"

text \<open>The first of the required keys that the environment lacks, in the order they are read.\<close>

definition missing_key :: "(string \<rightharpoonup> string) \<Rightarrow> string option" where
  "missing_key environ =
     List.find (\<lambda>k. environ k = None)
       [''IMAGE'', ''BASE'', ''ACCESS_KEY'', ''SECRET_KEY'', ''META_TAG'', ''TAGS'']"

text \<open>
  \<^verbatim>\<open>check_env\<close> reads the six required keys and splits \<^verbatim>\<open>TAGS\<close>. On a missing key it calls
  \<^verbatim>\<open>log_upload\<close> (an upload to object storage; \<open>log_upload\<close> is the exception that call ends
  with, if any) and raises. No value is inspected.
\<close>

definition check_env :: "(string \<rightharpoonup> string) \<Rightarrow> exn option \<Rightarrow> ci \<Rightarrow> exn + ci" where
  "check_env environ log_upload s =
     (case missing_key environ of
        Some k \<Rightarrow>
          (case log_upload of
             Some e \<Rightarrow> Inl e
           | None \<Rightarrow>
               Inl (PyException (''Key '' @ [CHR 0x27] @ k @ [CHR 0x27] @ '' is not set in ENV!'')))
      | None \<Rightarrow>
          Inr (s\<lparr>image_name := the (environ ''IMAGE''),
                 base := the (environ ''BASE''),
                 s3_key := the (environ ''ACCESS_KEY''),
                 s3_secret := the (environ ''SECRET_KEY''),
                 meta_tag := the (environ ''META_TAG''),
                 tags_env := the (environ ''TAGS''),
                 tags := (if str_in ''|'' (the (environ ''TAGS''))
                          then split_chr CHR ''|'' (the (environ ''TAGS''))
                          else [the (environ ''TAGS'')])\<rparr>))"

text \<open>
  \<^verbatim>\<open>__init__\<close>: the optional settings with their defaults, then \<^verbatim>\<open>check_env\<close>. The
  attributes that \<^verbatim>\<open>check_env\<close> assigns hold an empty value before it runs; \<open>here\<close> is
  the directory of the module, \<open>makedirs\<close> the exception \<^verbatim>\<open>os.makedirs\<close> ends with, if any.
\<close>

definition init ::
  "(string \<rightharpoonup> string) \<Rightarrow> exn option \<Rightarrow> exn option \<Rightarrow> string \<Rightarrow> exn + ci" where
  "init environ log_upload makedirs here =
     (case convert_env (Some (environ_get environ ''DOCKER_ENV'' [])) of
        Inl e \<Rightarrow> Inl e
      | Inr d \<Rightarrow>
     (case check_env environ log_upload
             \<lparr>tag_report_tests = [], report_containers = [], report_status = ''PASS'',
              dockerenv = d,
              webauth = environ_get environ ''WEB_AUTH'' ''user:password'',
              webpath = environ_get environ ''WEB_PATH'' [],
              screenshot = environ_get environ ''WEB_SCREENSHOT'' ''false'',
              screenshot_delay = environ_get environ ''WEB_SCREENSHOT_DELAY'' ''30'',
              port = environ_get environ ''PORT'' ''80'',
              ssl = environ_get environ ''SSL'' ''false'',
              region = environ_get environ ''S3_REGION'' ''us-east-1'',
              bucket = environ_get environ ''S3_BUCKET'' ''ci-tests.linuxserver.io'',
              test_container_delay = environ_get environ ''DELAY_START'' ''5'',
              image_name = [], base = [], s3_key = [], s3_secret = [],
              meta_tag = [], tags_env = [], tags = [], outdir = []\<rparr> of
        Inl e \<Rightarrow> Inl e
      | Inr s \<Rightarrow>
          (case makedirs of
             Some e \<Rightarrow> Inl e
           | None \<Rightarrow>
               Inr (s\<lparr>outdir := here @ ''/output/'' @ image_name s @ ''/'' @ meta_tag s\<rparr>))))"

section \<open>Observations on the trace\<close>

text \<open>How often a container was force-removed, and how many commands were run in one.\<close>

fun is_remove :: "handle \<Rightarrow> event \<Rightarrow> bool" where
  "is_remove h (Remove h') = (h = h')"
| "is_remove h _ = False"

definition removed :: "handle \<Rightarrow> world \<Rightarrow> nat" where
  "removed h w = length (filter (is_remove h) (trace w))"

fun is_exec :: "event \<Rightarrow> bool" where
  "is_exec (Exec_run _ _) = True"
| "is_exec _ = False"

definition execs :: "world \<Rightarrow> nat" where
  "execs w = length (filter is_exec (trace w))"

fun is_session_get :: "event \<Rightarrow> bool" where
  "is_session_get (Session_get _ _) = True"
| "is_session_get _ = False"

fun is_run :: "event \<Rightarrow> bool" where
  "is_run (Containers_run _ _) = True"
| "is_run _ = False"

text \<open>The entries that \<^verbatim>\<open>take_screenshot\<close> appends.\<close>

definition shot_pass :: test_entry where
  "shot_pass = (''Get screenshot'', ''PASS'', Text ''-'')"

definition shot_fail :: "exn \<Rightarrow> test_entry" where
  "shot_fail e = (''Get screenshot'', screenshot_failure e, Err e)"

section \<open>A concrete run\<close>

text \<open>An engine on which every call succeeds and the first log read shows a marker, an
  object as \<^verbatim>\<open>__init__\<close> leaves it, and a fresh world.\<close>

definition example_engine :: engine where
  "example_engine =
     \<lparr>run_subject = None,
      logs_result = (\<lambda>k. Inr ''[services.d] done.''),
      logs_cost = (\<lambda>k. 0),
      labels_build_version = Inr ''v1.0'',
      exec_result = (\<lambda>c. Inr ''busybox-1.36''),
      remove_subject = None,
      int_result = (\<lambda>s. Inr 5),
      reload_subject = None,
      subject_ip = Inr ''172.17.0.2'',
      run_tester = None,
      reload_tester = None,
      tester_ip = Inr ''172.17.0.3'',
      chrome_result = None,
      set_timeout_result = None,
      session_get_result = (\<lambda>r u. None),
      driver_get_result = (\<lambda>u. None),
      screenshot_file_result = (\<lambda>p. None),
      driver_quit_result = None,
      remove_tester = None\<rparr>"

definition example_ci :: ci where
  "example_ci =
     \<lparr>tag_report_tests = [], report_containers = [], report_status = ''PASS'',
      dockerenv = Map.empty,
      webauth = ''user:password'', webpath = [], screenshot = ''false'',
      screenshot_delay = ''30'', port = ''80'', ssl = ''false'',
      region = ''us-east-1'', bucket = ''ci-tests.linuxserver.io'',
      test_container_delay = ''5'',
      image_name = ''linuxserver/nginx'', base = ''alpine'', s3_key = ''key'',
      s3_secret = ''secret'', meta_tag = ''1.0-ls1'', tags_env = ''latest'',
      tags = [''latest''], outdir = ''/app/output/linuxserver/nginx/1.0-ls1''\<rparr>"

definition example_world :: world where
  "example_world = \<lparr>now = 0, trace = [], logs_calls = 0\<rparr>"

text \<open>Variations: the helper's control endpoint refuses every connection; the screenshot is
  switched on; the container never prints a marker and each log read takes 149 seconds; the
  container engine fails every log read; the base family is not one of the five known.\<close>

definition unreachable_engine :: engine where
  "unreachable_engine =
     example_engine\<lparr>session_get_result := (\<lambda>r u. Some RequestsConnectionError)\<rparr>"

definition shot_ci :: ci where
  "shot_ci = example_ci\<lparr>screenshot := ''true''\<rparr>"

definition slow_engine :: engine where
  "slow_engine = example_engine\<lparr>logs_result := (\<lambda>k. Inr ''starting''), logs_cost := (\<lambda>k. 149)\<rparr>"

definition dead_engine :: engine where
  "dead_engine = example_engine\<lparr>logs_result := (\<lambda>k. Inl DockerException)\<rparr>"

definition gentoo_environ :: "string \<rightharpoonup> string" where
  "gentoo_environ =
     [''IMAGE'' \<mapsto> ''linuxserver/nginx'', ''BASE'' \<mapsto> ''gentoo'', ''ACCESS_KEY'' \<mapsto> ''key'',
      ''SECRET_KEY'' \<mapsto> ''secret'', ''META_TAG'' \<mapsto> ''1.0-ls1'', ''TAGS'' \<mapsto> ''latest'']"

definition gentoo_ci :: ci where
  "gentoo_ci = example_ci\<lparr>base := ''gentoo''\<rparr>"

section \<open>Strings and \<^verbatim>\<open>convert_env\<close>\<close>

lemma split_chr_nonempty: "split_chr sep s \<noteq> []"
  by (induction s) (auto split: list.splits)

lemma split_chr_no_sep: "sep \<notin> set s \<Longrightarrow> split_chr sep s = [s]"
  by (induction s) auto

lemma split_chr_first:
  "\<exists>rest. split_chr sep s = takeWhile (\<lambda>c. c \<noteq> sep) s # rest"
  by (induction s) (auto split: list.splits)

lemma split_chr_sep:
  "sep \<in> set s \<Longrightarrow>
   split_chr sep s =
     takeWhile (\<lambda>c. c \<noteq> sep) s # split_chr sep (tl (dropWhile (\<lambda>c. c \<noteq> sep) s))"
  by (induction s) (auto split: list.splits simp: split_chr_nonempty)

lemma set_pair_eq:
  assumes "CHR ''='' \<in> set p"
  shows "set_pair d p = Inr (d(pair_key p \<mapsto> pair_value p))"
proof -
  obtain rest where r:
    "split_chr CHR ''='' (tl (dropWhile (\<lambda>c. c \<noteq> CHR ''='') p)) = pair_value p # rest"
    unfolding pair_value_def using split_chr_first by blast
  have "split_chr CHR ''='' p = pair_key p # pair_value p # rest"
    using split_chr_sep[OF assms] r by (simp add: pair_key_def)
  then show ?thesis by (simp add: set_pair_def)
qed

lemma set_pair_raise: "CHR ''='' \<notin> set p \<Longrightarrow> set_pair d p = Inl IndexError"
  by (simp add: set_pair_def split_chr_no_sep)

lemma str_in_chr: "str_in [c] s \<longleftrightarrow> c \<in> set s"
  unfolding str_in_def
  by (induction s) (auto simp: sublist_Cons_right)

lemma set_pairs_raise:
  "\<exists>p \<in> set ps. CHR ''='' \<notin> set p \<Longrightarrow> set_pairs d ps = Inl IndexError"
proof (induction ps arbitrary: d)
  case Nil
  then show ?case by simp
next
  case (Cons p ps)
  show ?case
  proof (cases "CHR ''='' \<in> set p")
    case True
    with Cons show ?thesis by (auto simp: set_pair_eq)
  next
    case False
    then show ?thesis by (simp add: set_pair_raise)
  qed
qed

lemma set_pairs_ok:
  "\<forall>p \<in> set ps. CHR ''='' \<in> set p \<Longrightarrow>
   set_pairs d ps = Inr (d ++ map_of (rev (map (\<lambda>p. (pair_key p, pair_value p)) ps)))"
proof (induction ps arbitrary: d)
  case Nil
  then show ?case by simp
next
  case (Cons p ps)
  then show ?case
    by (simp add: set_pair_eq map_add_upd_left)
qed

lemma convert_env_loop:
  "s \<noteq> [] \<Longrightarrow> convert_env (Some s) = set_pairs Map.empty (split_chr CHR ''|'' s)"
  by (auto simp: convert_env_def str_in_chr split_chr_no_sep split: sum.splits)

text \<open>
  C10. \<^verbatim>\<open>convert_env\<close> maps the empty string (and the default \<^verbatim>\<open>None\<close>) to the empty
  dictionary. On any other input it runs over the pieces between \<^verbatim>\<open>|\<close>: a piece with an
  \<^verbatim>\<open>=\<close> stores, under the text before the first \<^verbatim>\<open>=\<close>, the text between the first and
  the second \<^verbatim>\<open>=\<close> (the rest is dropped, so \<^verbatim>\<open>A=b=c\<close> gives \<^verbatim>\<open>{'A': 'b'}\<close>); a piece
  without \<^verbatim>\<open>=\<close> raises IndexError. When every piece has an \<^verbatim>\<open>=\<close> the result holds one
  entry per piece, later pieces overwriting earlier ones with the same key.
\<close>

theorem convert_env_pairs:
  "convert_env None = Inr Map.empty
   \<and> convert_env (Some []) = Inr Map.empty
   \<and> (s \<noteq> [] \<longrightarrow> convert_env (Some s) = set_pairs Map.empty (split_chr CHR ''|'' s))
   \<and> (CHR ''='' \<in> set varpair \<longrightarrow>
        set_pair d varpair = Inr (d(pair_key varpair \<mapsto> pair_value varpair)))
   \<and> (CHR ''='' \<notin> set varpair \<longrightarrow> set_pair d varpair = Inl IndexError)
   \<and> (s \<noteq> [] \<longrightarrow> (\<exists>p \<in> set (split_chr CHR ''|'' s). CHR ''='' \<notin> set p) \<longrightarrow>
        convert_env (Some s) = Inl IndexError)
   \<and> (s \<noteq> [] \<longrightarrow> (\<forall>p \<in> set (split_chr CHR ''|'' s). CHR ''='' \<in> set p) \<longrightarrow>
        convert_env (Some s) =
          Inr (map_of (rev (map (\<lambda>p. (pair_key p, pair_value p)) (split_chr CHR ''|'' s)))))
   \<and> convert_env (Some ''A=b=c'') = Inr [''A'' \<mapsto> ''b'']"
proof -
  have last: "convert_env (Some ''A=b=c'') = Inr [''A'' \<mapsto> ''b'']"
    by (simp add: convert_env_def str_in_def set_pair_def)
  show ?thesis
    using set_pairs_raise[of "split_chr CHR ''|'' s" Map.empty]
      set_pairs_ok[of "split_chr CHR ''|'' s" Map.empty]
    by (simp add: convert_env_loop set_pair_eq set_pair_raise last)
      (simp add: convert_env_def)
qed

theorem convert_env_pairs_witness:
  "convert_env (Some ''A=1|B=b=c'') = Inr [''A'' \<mapsto> ''1'', ''B'' \<mapsto> ''b'']
   \<and> set_pair Map.empty ''B=b=c'' = Inr [''B'' \<mapsto> ''b'']
   \<and> convert_env (Some ''A=1|B'') = Inl IndexError
   \<and> set_pair Map.empty ''B'' = Inl IndexError"
proof -
  note good = convert_env_pairs[of "''A=1|B=b=c''" "''B=b=c''" Map.empty]
  note bad = convert_env_pairs[of "''A=1|B''" "''B''" Map.empty]
  have 1: "convert_env (Some ''A=1|B=b=c'') = Inr [''A'' \<mapsto> ''1'', ''B'' \<mapsto> ''b'']"
    using good[THEN conjunct2, THEN conjunct2, THEN conjunct2, THEN conjunct2,
               THEN conjunct2, THEN conjunct2, THEN conjunct1]
    by (simp add: pair_key_def pair_value_def)
  have 2: "set_pair Map.empty ''B=b=c'' = Inr [''B'' \<mapsto> ''b'']"
    using good[THEN conjunct2, THEN conjunct2, THEN conjunct2, THEN conjunct1]
    by (simp add: pair_key_def pair_value_def)
  have 3: "convert_env (Some ''A=1|B'') = Inl IndexError"
    using bad[THEN conjunct2, THEN conjunct2, THEN conjunct2, THEN conjunct2,
              THEN conjunct2, THEN conjunct1]
    by simp
  have 4: "set_pair Map.empty ''B'' = Inl IndexError"
    using bad[THEN conjunct2, THEN conjunct2, THEN conjunct2, THEN conjunct2, THEN conjunct1]
    by simp
  show ?thesis using 1 2 3 4 by blast
qed

section \<open>Effects of the steps on the trace and on the object\<close>


lemma add_test_simps [simp]:
  "tag_report_tests (add_test t s) = tag_report_tests s @ [t]"
  "report_containers (add_test t s) = report_containers s"
  "report_status (add_test t s) = report_status s"
  "base (add_test t s) = base s"
  "screenshot (add_test t s) = screenshot s"
  "test_container_delay (add_test t s) = test_container_delay s"
  "package_command (add_test t s) = package_command s"
  by (simp_all add: add_test_def package_command_def)

lemma fail_status_simps [simp]:
  "tag_report_tests (fail_status s) = tag_report_tests s"
  "report_containers (fail_status s) = report_containers s"
  "report_status (fail_status s) = ''FAIL''"
  by (simp_all add: fail_status_def)

lemma removed_emit [simp]:
  "removed h (emit ev w) = (if is_remove h ev then Suc (removed h w) else removed h w)"
  by (simp add: removed_def emit_def)

lemma execs_emit [simp]: "execs (emit ev w) = (if is_exec ev then Suc (execs w) else execs w)"
  by (simp add: execs_def emit_def)

lemma now_emit [simp]: "now (emit ev w) = now w"
  by (simp add: emit_def)

lemma container_logs_frame:
  "container_logs E w = (r, w') \<Longrightarrow> removed h w' = removed h w \<and> execs w' = execs w"
  by (auto simp: container_logs_def removed_def execs_def)

lemma sleep_frame [simp]: "removed h (sleep n w) = removed h w" "execs (sleep n w) = execs w"
  by (simp_all add: sleep_def removed_def execs_def emit_def)

lemma sleep_int_frame:
  "sleep_int E x w = (r, w') \<Longrightarrow> removed h w' = removed h w \<and> execs w' = execs w"
  by (auto simp: sleep_int_def split: sum.splits if_splits)

lemma watch_logs_frame:
  "watch_logs E t_end w = (r, w') \<Longrightarrow> removed h w' = removed h w \<and> execs w' = execs w"
proof (induction E t_end w arbitrary: r w' rule: watch_logs.induct)
  case (1 E t_end w)
  show ?case
  proof (cases "now w < t_end")
    case False
    with "1.prems" show ?thesis by simp
  next
    case True
    obtain a w1 where cl: "container_logs E w = (a, w1)" by (cases "container_logs E w")
    note fr = container_logs_frame[OF cl, of h]
    show ?thesis
    proof (cases a)
      case (Inl e)
      with "1.prems" True cl fr show ?thesis by simp
    next
      case (Inr logblob)
      show ?thesis
      proof (cases "logs_ready logblob")
        case True
        with "1.prems" \<open>now w < t_end\<close> cl fr Inr show ?thesis by simp
      next
        case False
        with "1.prems" \<open>now w < t_end\<close> cl Inr
        have "watch_logs E t_end (sleep 1 w1) = (r, w')" by simp
        from "1.IH"[OF \<open>now w < t_end\<close> cl[symmetric] _ False this] Inr fr
        show ?thesis by simp
      qed
    qed
  qed
qed

lemma endtest_post:
  assumes "endtest E tag bv pk s w = (r, s', w')"
  shows "execs w' = execs w \<and>
         ((r = None \<and>
           (\<exists>logblob. s' = s\<lparr>report_containers := report_containers s @
                     [\<lparr>rep_tag = tag, rep_logs = logblob, rep_sysinfo = pk,
                       rep_build_version = bv, rep_tag_tests = tag_report_tests s\<rparr>],
                   tag_report_tests := []\<rparr>)
           \<and> removed Subject w' = Suc (removed Subject w))
          \<or> (r \<noteq> None \<and> s' = s \<and> removed Subject w' \<le> Suc (removed Subject w)))"
proof -
  obtain a w1 where cl: "container_logs E w = (a, w1)" by (cases "container_logs E w")
  note fr = container_logs_frame[OF cl, of Subject]
  show ?thesis
  proof (cases a)
    case (Inl e)
    with assms cl fr show ?thesis by (auto simp: endtest_def)
  next
    case (Inr logblob)
    show ?thesis
    proof (cases "remove_subject E")
      case None
      with assms cl fr Inr show ?thesis
        by (auto simp: endtest_def container_remove_def)
    next
      case (Some e)
      with assms cl fr Inr show ?thesis
        by (auto simp: endtest_def container_remove_def)
    qed
  qed
qed

lemma session_get_frame:
  "session_get E a u w = (r, w') \<Longrightarrow> removed h w' = removed h w \<and> execs w' = execs w"
  by (auto simp: session_get_def split: sum.splits)

lemma screenshot_try_post:
  assumes "screenshot_try E tag proto url s w = (r, s1, w1)"
  shows "removed h w1 = removed h w \<and> execs w1 = execs w \<and>
         ((s1 = s \<and> r \<noteq> None) \<or>
          (s1 = add_test shot_pass s \<and> r = driver_quit_result E))"
  using assms
  unfolding screenshot_try_def Let_def webdriver_chrome_def set_page_load_timeout_def
    driver_get_def get_screenshot_as_file_def driver_quit_def shot_pass_def[symmetric]
  by (auto split: prod.splits option.splits dest!: session_get_frame[where h=h] sleep_int_frame[where h=h])

lemma take_screenshot_post:
  assumes "take_screenshot E tag s w = (r, s', w')"
  shows "removed Subject w' = removed Subject w \<and> execs w' = execs w
       \<and> report_containers s' = report_containers s \<and> report_status s' = report_status s
       \<and> (\<exists>new. tag_report_tests s' = tag_report_tests s @ new \<and>
            (r \<noteq> None \<or> new = [shot_pass] \<or> (\<exists>e. new = [shot_fail e] \<or> new = [shot_pass, shot_fail e])))"
  using assms
  unfolding take_screenshot_def Let_def container_reload_def containers_run_def container_remove_def
    shot_fail_def[symmetric] shot_pass_def[symmetric]
  apply (auto split: prod.splits option.splits sum.splits
      dest!: sleep_int_frame[where h=Subject] screenshot_try_post[where h=Subject])
  by metis+

lemma dump_packages_frame:
  "dump_packages E c w = (r, w') \<Longrightarrow> removed h w' = removed h w"
  by (auto simp: dump_packages_def exec_run_def split: option.splits)

section \<open>The ways \<^verbatim>\<open>container_test\<close> returns\<close>


lemma container_test_cases:
  assumes "container_test E tag s w = (r, s', w')"
  obtains
    (start_raise) e where
      "run_subject E = Some e" "r = Some e" "s' = s"
      "w' = emit (Containers_run (image_name s @ '':'' @ tag) (dockerenv s)) w"
  | (poll_error) e w2 where
      "run_subject E = None"
      "watch_logs E (now w + 60 * 5) (emit (Containers_run (image_name s @ '':'' @ tag) (dockerenv s)) w) = (Raised e, w2)"
      "endtest E tag ''ERROR'' ''ERROR''
         (fail_status (add_test (''Container startup'', ''FAIL'', Text ''INIT NOT FINISHED'') s)) w2 = (r, s', w')"
  | (version_fail) logsfound w2 error where
      "run_subject E = None"
      "watch_logs E (now w + 60 * 5) (emit (Containers_run (image_name s @ '':'' @ tag) (dockerenv s)) w) = (Done logsfound, w2)"
      "labels_build_version E = Inl error"
      "endtest E tag ''ERROR'' ''ERROR''
         (fail_status (add_test (''Get build version'', ''FAIL'', Err error) s)) w2 = (r, s', w')"
  | (timeout) w2 build_version where
      "run_subject E = None"
      "watch_logs E (now w + 60 * 5) (emit (Containers_run (image_name s @ '':'' @ tag) (dockerenv s)) w) = (Done False, w2)"
      "labels_build_version E = Inr build_version"
      "endtest E tag build_version ''ERROR''
         (fail_status (add_test (''Container startup'', ''FAIL'', Text ''INIT NOT FINISHED'')
            (add_test (''Get build version'', ''PASS'', Text ''-'') s))) w2 = (r, s', w')"
  | (dump_fail) w2 build_version error w3 where
      "run_subject E = None"
      "watch_logs E (now w + 60 * 5) (emit (Containers_run (image_name s @ '':'' @ tag) (dockerenv s)) w) = (Done True, w2)"
      "labels_build_version E = Inr build_version"
      "dump_packages E (package_command s) w2 = (Inl error, w3)"
      "endtest E tag build_version ''ERROR''
         (fail_status (add_test (''Dump package info'', ''FAIL'', Err error)
            (add_test (''Container startup'', ''PASS'', Text ''-'')
              (add_test (''Get build version'', ''PASS'', Text ''-'') s)))) w3 = (r, s', w')"
  | (sleep_raise) w2 build_version packages w3 e where
      "run_subject E = None"
      "watch_logs E (now w + 60 * 5) (emit (Containers_run (image_name s @ '':'' @ tag) (dockerenv s)) w) = (Done True, w2)"
      "labels_build_version E = Inr build_version"
      "dump_packages E (package_command s) w2 = (Inr packages, w3)"
      "sleep_int E (test_container_delay s) w3 = (Some e, w')"
      "r = Some e"
      "s' = add_test (''Dump package info'', ''PASS'', Text ''-'')
            (add_test (''Container startup'', ''PASS'', Text ''-'')
              (add_test (''Get build version'', ''PASS'', Text ''-'') s))"
  | (no_shot) w2 build_version packages w3 w4 where
      "run_subject E = None"
      "watch_logs E (now w + 60 * 5) (emit (Containers_run (image_name s @ '':'' @ tag) (dockerenv s)) w) = (Done True, w2)"
      "labels_build_version E = Inr build_version"
      "dump_packages E (package_command s) w2 = (Inr packages, w3)"
      "sleep_int E (test_container_delay s) w3 = (None, w4)"
      "screenshot s \<noteq> ''true''"
      "endtest E tag build_version packages
         (add_test (''Dump package info'', ''PASS'', Text ''-'')
            (add_test (''Container startup'', ''PASS'', Text ''-'')
              (add_test (''Get build version'', ''PASS'', Text ''-'') s))) w4 = (r, s', w')"
  | (shot_raise) w2 build_version packages w3 w4 e where
      "run_subject E = None"
      "watch_logs E (now w + 60 * 5) (emit (Containers_run (image_name s @ '':'' @ tag) (dockerenv s)) w) = (Done True, w2)"
      "labels_build_version E = Inr build_version"
      "dump_packages E (package_command s) w2 = (Inr packages, w3)"
      "sleep_int E (test_container_delay s) w3 = (None, w4)"
      "screenshot s = ''true''"
      "take_screenshot E tag
         (add_test (''Dump package info'', ''PASS'', Text ''-'')
            (add_test (''Container startup'', ''PASS'', Text ''-'')
              (add_test (''Get build version'', ''PASS'', Text ''-'') s))) w4 = (Some e, s', w')"
      "r = Some e"
  | (shot) w2 build_version packages w3 w4 s4 w5 where
      "run_subject E = None"
      "watch_logs E (now w + 60 * 5) (emit (Containers_run (image_name s @ '':'' @ tag) (dockerenv s)) w) = (Done True, w2)"
      "labels_build_version E = Inr build_version"
      "dump_packages E (package_command s) w2 = (Inr packages, w3)"
      "sleep_int E (test_container_delay s) w3 = (None, w4)"
      "screenshot s = ''true''"
      "take_screenshot E tag
         (add_test (''Dump package info'', ''PASS'', Text ''-'')
            (add_test (''Container startup'', ''PASS'', Text ''-'')
              (add_test (''Get build version'', ''PASS'', Text ''-'') s))) w4 = (None, s4, w5)"
      "endtest E tag build_version packages s4 w5 = (r, s', w')"
proof -
  obtain r1 w1 where run: "containers_run E Subject (image_name s @ '':'' @ tag) (dockerenv s) w = (r1, w1)"
    by (cases "containers_run E Subject (image_name s @ '':'' @ tag) (dockerenv s) w")
  then have w1: "w1 = emit (Containers_run (image_name s @ '':'' @ tag) (dockerenv s)) w"
    and r1: "r1 = run_subject E"
    by (auto simp: containers_run_def)
  show thesis
  proof (cases r1)
    case (Some e)
    with assms run have "r = Some e \<and> s' = s \<and> w' = w1" by (simp add: container_test_def)
    with start_raise Some r1 w1 show thesis by simp
  next
    case r1N: None
  obtain wl w2 where watch: "watch_logs E (now w1 + 60 * 5) w1 = (wl, w2)"
    by (cases "watch_logs E (now w1 + 60 * 5) w1")
  show thesis
  proof (cases wl)
    case (Raised e)
    with assms run r1N watch have
      "endtest E tag ''ERROR'' ''ERROR''
         (fail_status (add_test (''Container startup'', ''FAIL'', Text ''INIT NOT FINISHED'') s)) w2 = (r, s', w')"
      by (simp add: container_test_def)
    with poll_error r1 r1N watch Raised w1 show thesis by simp
  next
    case (Done logsfound)
    show thesis
    proof (cases "labels_build_version E")
      case (Inl error)
      with assms run r1N watch Done have
        "endtest E tag ''ERROR'' ''ERROR''
          (fail_status (add_test (''Get build version'', ''FAIL'', Err error) s)) w2 = (r, s', w')"
        by (simp add: container_test_def)
      with version_fail r1 r1N watch Done w1 Inl show thesis by simp
    next
      case (Inr build_version)
      show thesis
      proof (cases logsfound)
        case False
        with assms run r1N watch Done Inr have
          "endtest E tag build_version ''ERROR''
            (fail_status (add_test (''Container startup'', ''FAIL'', Text ''INIT NOT FINISHED'')
              (add_test (''Get build version'', ''PASS'', Text ''-'') s))) w2 = (r, s', w')"
          by (simp add: container_test_def)
        with timeout r1 r1N watch Done w1 Inr False show thesis by simp
      next
        case True
        obtain d w3 where dump: "dump_packages E (package_command s) w2 = (d, w3)"
          by (cases "dump_packages E (package_command s) w2")
        show thesis
        proof (cases d)
          case (Inl error)
          with assms run r1N watch Done Inr True dump have
            "endtest E tag build_version ''ERROR''
              (fail_status (add_test (''Dump package info'', ''FAIL'', Err error)
                (add_test (''Container startup'', ''PASS'', Text ''-'')
                  (add_test (''Get build version'', ''PASS'', Text ''-'') s)))) w3 = (r, s', w')"
            by (simp add: container_test_def)
          with dump_fail r1 r1N watch Done w1 Inr True dump Inl show thesis by simp
        next
          case packages: (Inr packages)
          obtain r4 w4 where sl: "sleep_int E (test_container_delay s) w3 = (r4, w4)"
            by (cases "sleep_int E (test_container_delay s) w3")
          show thesis
          proof (cases r4)
            case (Some e)
            with assms run r1N watch Done Inr True dump packages sl have
              "r = Some e \<and> w' = w4 \<and> s' = add_test (''Dump package info'', ''PASS'', Text ''-'')
                (add_test (''Container startup'', ''PASS'', Text ''-'')
                  (add_test (''Get build version'', ''PASS'', Text ''-'') s))"
              by (simp add: container_test_def)
            with sleep_raise r1 r1N watch Done w1 Inr True dump packages sl Some show thesis by simp
          next
            case r4N: None
          show thesis
          proof (cases "screenshot s = ''true''")
            case False
            with assms run r1N watch Done Inr True dump packages sl r4N have
              "endtest E tag build_version packages
                (add_test (''Dump package info'', ''PASS'', Text ''-'')
                  (add_test (''Container startup'', ''PASS'', Text ''-'')
                    (add_test (''Get build version'', ''PASS'', Text ''-'') s))) w4 = (r, s', w')"
              by (simp add: container_test_def)
            with no_shot r1 r1N watch Done w1 Inr True dump packages sl r4N False show thesis by simp
          next
            case shot_on: True
            obtain r5 s4 w5 where ts: "take_screenshot E tag
                (add_test (''Dump package info'', ''PASS'', Text ''-'')
                  (add_test (''Container startup'', ''PASS'', Text ''-'')
                    (add_test (''Get build version'', ''PASS'', Text ''-'') s))) w4 = (r5, s4, w5)"
              by (metis prod_cases3)
            show thesis
            proof (cases r5)
              case (Some e)
              with assms run r1N watch Done Inr True dump packages sl r4N shot_on ts have
                "r = Some e \<and> s' = s4 \<and> w' = w5"
                by (simp add: container_test_def)
              with shot_raise r1 r1N watch Done w1 Inr True dump packages sl r4N shot_on ts Some
              show thesis by simp
            next
              case r5N: None
              with assms run r1N watch Done Inr True dump packages sl r4N shot_on ts have
                "endtest E tag build_version packages s4 w5 = (r, s', w')"
                by (simp add: container_test_def)
              with shot r1 r1N watch Done w1 Inr True dump packages sl r4N shot_on ts r5N
              show thesis by simp
            qed
          qed
          qed
        qed
      qed
    qed
  qed
  qed
qed

section \<open>Evaluating a run\<close>

lemmas model_defs =
  container_test_def take_screenshot_def screenshot_try_def endtest_def
  containers_run_def container_logs_def container_remove_def container_reload_def
  exec_run_def sleep_def sleep_int_def emit_def dump_packages_def package_command_def
  webdriver_chrome_def set_page_load_timeout_def session_get_def driver_get_def
  get_screenshot_as_file_def driver_quit_def add_test_def fail_status_def
  screenshot_failure_def logs_ready_def str_in_def marker_services_def marker_lsio_def
  str_upper_def upper_chr_def str_lower_def lower_chr_def new_session_def mount_def
  od_set_def Let_def sublist_Cons_right

lemmas example_defs =
  example_engine_def example_ci_def example_world_def unreachable_engine_def shot_ci_def
  slow_engine_def dead_engine_def gentoo_ci_def

section \<open>Readiness markers\<close>

lemma str_in_iff: "str_in sub s \<longleftrightarrow> (\<exists>p q. s = p @ sub @ q)"
  by (simp add: str_in_def sublist_def)

lemma watch_logs_first_ready:
  assumes "now w < t_end" "logs_result E (logs_calls w) = Inr logblob" "logs_ready logblob"
  shows "fst (watch_logs E t_end w) = Done True"
  using assms by (simp add: container_logs_def)

text \<open>
  C7. The readiness test holds exactly for the logs in which one of the two markers occurs
  as a contiguous piece. A log with only the second marker and a log with only the first one
  are both ready, and a watch whose first log read returns either of them ends at once with
  the same verdict: the marker was found.
\<close>

theorem readiness_marker_order_independent:
  "logs_ready logblob =
     ((\<exists>p q. logblob = p @ ''[services.d] done.'' @ q) \<or>
      (\<exists>p q. logblob = p @ ''[ls.io-init] done.'' @ q))
   \<and> (str_in marker_lsio b2 \<and> \<not> str_in marker_services b2 \<and>
       str_in marker_services b1 \<and> \<not> str_in marker_lsio b1 \<longrightarrow>
         logs_ready b2 \<and> logs_ready b1 \<and>
         (now w < t_end \<and> logs_result E2 (logs_calls w) = Inr b2 \<and>
          logs_result E1 (logs_calls w) = Inr b1 \<longrightarrow>
            fst (watch_logs E2 t_end w) = Done True \<and>
            fst (watch_logs E1 t_end w) = fst (watch_logs E2 t_end w)))"
proof -
  have 1: "logs_ready logblob =
     ((\<exists>p q. logblob = p @ ''[services.d] done.'' @ q) \<or>
      (\<exists>p q. logblob = p @ ''[ls.io-init] done.'' @ q))"
    unfolding logs_ready_def str_in_iff marker_services_def marker_lsio_def by (rule refl)
  show ?thesis
    using 1 watch_logs_first_ready[of w t_end E1 b1] watch_logs_first_ready[of w t_end E2 b2]
    by (auto simp: logs_ready_def)
qed

theorem readiness_marker_order_independent_witness:
  "logs_ready ''init [ls.io-init] done. ok'' \<and> logs_ready ''[services.d] done.''
   \<and> fst (watch_logs (example_engine\<lparr>logs_result := (\<lambda>k. Inr ''init [ls.io-init] done. ok'')\<rparr>)
            300 example_world) = Done True
   \<and> fst (watch_logs example_engine 300 example_world)
     = fst (watch_logs (example_engine\<lparr>logs_result := (\<lambda>k. Inr ''init [ls.io-init] done. ok'')\<rparr>)
              300 example_world)"
proof -
  have h: "str_in marker_lsio ''init [ls.io-init] done. ok''
     \<and> \<not> str_in marker_services ''init [ls.io-init] done. ok''
     \<and> str_in marker_services ''[services.d] done.''
     \<and> \<not> str_in marker_lsio ''[services.d] done.''"
    by (simp add: str_in_def marker_lsio_def marker_services_def sublist_Cons_right)
  have g: "now example_world < 300
     \<and> logs_result (example_engine\<lparr>logs_result := (\<lambda>k. Inr ''init [ls.io-init] done. ok'')\<rparr>)
         (logs_calls example_world) = Inr ''init [ls.io-init] done. ok''
     \<and> logs_result example_engine (logs_calls example_world) = Inr ''[services.d] done.''"
    by (simp add: example_world_def example_engine_def)
  show ?thesis
    using readiness_marker_order_independent[of "''x''" "''init [ls.io-init] done. ok''"
        "''[services.d] done.''" example_world 300
        "example_engine\<lparr>logs_result := (\<lambda>k. Inr ''init [ls.io-init] done. ok'')\<rparr>"
        example_engine] h g
    by blast
qed

section \<open>The adapter that serves the probe\<close>

lemma new_session_eq:
  "new_session = [(''https://'', default_retries), (''http://'', default_retries)]"
  by (simp add: new_session_def mount_def od_set_def)

lemma probe_adapter_http:
  "get_adapter (mount ''http'' r new_session) (''http://'' @ testerip @ '':3000'')
     = Inr default_retries"
  by (simp add: new_session_eq mount_def od_set_def str_lower_def lower_chr_def)

lemma probe_adapter_https:
  "get_adapter (mount ''https'' r new_session) (''http://'' @ testerip @ '':3000'')
     = Inr default_retries"
  by (simp add: new_session_eq mount_def od_set_def str_lower_def lower_chr_def)

text \<open>
  C8, evaluated. The retry configuration (10 attempts, backoff factor 2, status 502, 503,
  504) is mounted under the prefix \<^verbatim>\<open>http\<close> or \<^verbatim>\<open>https\<close>. A session serves a URL with
  the first adapter, longest prefix first, whose prefix the URL starts with, so the probe of
  \<^verbatim>\<open>http://<address>:3000\<close> is served by the default adapter mounted under \<^verbatim>\<open>http://\<close>,
  which does not retry. On the example run with the screenshot switched on, the one request
  that is sent goes out with \<open>total = 0\<close>, whatever the helper's address and whether \<^verbatim>\<open>SSL\<close>
  is set or not.
\<close>

theorem probe_request_without_retry:
  "filter is_session_get
     (trace (snd (snd (take_screenshot example_engine ''latest'' shot_ci example_world))))
     = [Session_get default_retries ''http://172.17.0.3:3000'']
   \<and> total default_retries = 0
   \<and> get_adapter (mount ''http''
         \<lparr>total = 10, backoff_factor = 2, status_forcelist = [502, 503, 504]\<rparr> new_session)
         (''http://'' @ testerip @ '':3000'') = Inr default_retries
   \<and> get_adapter (mount ''https''
         \<lparr>total = 10, backoff_factor = 2, status_forcelist = [502, 503, 504]\<rparr> new_session)
         (''http://'' @ testerip @ '':3000'') = Inr default_retries"
proof -
  have "filter is_session_get
     (trace (snd (snd (take_screenshot example_engine ''latest'' shot_ci example_world))))
     = [Session_get default_retries ''http://172.17.0.3:3000'']"
    by (simp add: example_defs model_defs)
  moreover have "total default_retries = 0"
    by (simp add: default_retries_def)
  ultimately show ?thesis
    using probe_adapter_http probe_adapter_https by blast
qed

section \<open>A failing start of the container\<close>

text \<open>
  C4, as the code has it. The call that starts the container is outside every \<^verbatim>\<open>try\<close>:
  when it raises, \<^verbatim>\<open>container_test\<close> ends with that exception. The object is unchanged
  (no test entry, no report, the status as it was), and nothing but the start call was issued
  (no log read, no removal).
\<close>

theorem start_failure_propagates:
  "run_subject E = Some e \<Longrightarrow>
   container_test E tag s w =
     (Some e, s, emit (Containers_run (image_name s @ '':'' @ tag) (dockerenv s)) w)"
  by (simp add: container_test_def containers_run_def)

theorem start_failure_propagates_witness:
  "run_subject (example_engine\<lparr>run_subject := Some DockerException\<rparr>) = Some DockerException
   \<and> container_test (example_engine\<lparr>run_subject := Some DockerException\<rparr>) ''latest''
       example_ci example_world =
     (Some DockerException, example_ci,
      emit (Containers_run (image_name example_ci @ '':'' @ ''latest'') (dockerenv example_ci))
        example_world)"
  using start_failure_propagates[of "example_engine\<lparr>run_subject := Some DockerException\<rparr>"
      DockerException "''latest''" example_ci example_world]
  by simp

text \<open>C4 as stated fails: with a start call that raises, the exception leaves
  \<^verbatim>\<open>container_test\<close>, no report is appended and no FAIL entry is recorded anywhere.\<close>

theorem start_failure_counterexample:
  "fst (container_test (example_engine\<lparr>run_subject := Some DockerException\<rparr>) ''latest''
         example_ci example_world) = Some DockerException
   \<and> report_containers (fst (snd (container_test
         (example_engine\<lparr>run_subject := Some DockerException\<rparr>) ''latest''
         example_ci example_world))) = []
   \<and> tag_report_tests (fst (snd (container_test
         (example_engine\<lparr>run_subject := Some DockerException\<rparr>) ''latest''
         example_ci example_world))) = []
   \<and> removed Subject (snd (snd (container_test
         (example_engine\<lparr>run_subject := Some DockerException\<rparr>) ''latest''
         example_ci example_world))) = 0"
  by (simp add: container_test_def containers_run_def example_defs removed_def emit_def)

section \<open>The run-wide status and the screenshot\<close>

text \<open>A test leaves the run-wide status as it was or sets it to \<^verbatim>\<open>FAIL\<close>.\<close>

lemma status_never_reset:
  assumes "container_test E tag s w = (r, s', w')"
  shows "report_status s' = report_status s \<or> report_status s' = ''FAIL''"
  using assms
proof (cases rule: container_test_cases)
  case (start_raise e)
  then show ?thesis by simp
next
  case (poll_error e w2)
  from endtest_post[OF poll_error(3)] show ?thesis by auto
next
  case (version_fail logsfound w2 error)
  from endtest_post[OF version_fail(4)] show ?thesis by auto
next
  case (timeout w2 build_version)
  from endtest_post[OF timeout(4)] show ?thesis by auto
next
  case (dump_fail w2 build_version error w3)
  from endtest_post[OF dump_fail(5)] show ?thesis by auto
next
  case (sleep_raise w2 build_version packages w3 e)
  then show ?thesis by simp
next
  case (no_shot w2 build_version packages w3 w4)
  from endtest_post[OF no_shot(7)] show ?thesis by auto
next
  case (shot_raise w2 build_version packages w3 w4 e)
  from take_screenshot_post[OF shot_raise(7)] show ?thesis by simp
next
  case (shot w2 build_version packages w3 w4 s4 w5)
  from take_screenshot_post[OF shot(7)] endtest_post[OF shot(8)] show ?thesis by auto
qed

text \<open>
  C1, evaluated at the failing input. Screenshot switched on, everything succeeds except
  that the helper's control endpoint refuses the connection. The tag's report then holds the
  entry \<^verbatim>\<open>['Get screenshot', 'FAIL CONNECTION ERROR', error]\<close>, and the run-wide status is
  still \<^verbatim>\<open>PASS\<close>: none of the three \<^verbatim>\<open>except\<close> branches of \<^verbatim>\<open>take_screenshot\<close> assigns
  \<^verbatim>\<open>report_status\<close>, unlike every failure branch of \<^verbatim>\<open>container_test\<close>.
\<close>

theorem screenshot_failure_keeps_pass:
  "(case container_test unreachable_engine ''latest'' shot_ci example_world of
      (r, s', w') \<Rightarrow>
        r = None \<and> report_status s' = ''PASS'' \<and>
        map rep_tag_tests (report_containers s') =
          [[(''Get build version'', ''PASS'', Text ''-''),
            (''Container startup'', ''PASS'', Text ''-''),
            (''Dump package info'', ''PASS'', Text ''-''),
            (''Get screenshot'', ''FAIL CONNECTION ERROR'', Err RequestsConnectionError)]])"
  by (simp add: example_defs model_defs)

section \<open>One report and one removal per returning test\<close>

text \<open>
  C3, as the code has it. Every invocation of \<^verbatim>\<open>container_test\<close> that returns (after a
  poll error, a readiness timeout, a failed version extraction, a failed package dump or a
  full success) has appended exactly one report, for its own tag, at the end of
  \<^verbatim>\<open>report_containers\<close>, has emptied the accumulator, and has issued exactly one forced
  removal of the container under test. An invocation that ends with an exception (the start
  call, the last log read or the removal in \<^verbatim>\<open>_endtest\<close>, the settle sleep or the screenshot
  step raised) has appended no report and has issued at most one removal.
\<close>

theorem one_report_one_removal:
  assumes "container_test E tag s w = (r, s', w')"
  shows "(r = None \<longrightarrow>
            (\<exists>rep. report_containers s' = report_containers s @ [rep] \<and> rep_tag rep = tag)
            \<and> tag_report_tests s' = []
            \<and> removed Subject w' = Suc (removed Subject w))
       \<and> (r \<noteq> None \<longrightarrow>
            report_containers s' = report_containers s
            \<and> removed Subject w' \<le> Suc (removed Subject w))"
  using assms
proof (cases rule: container_test_cases)
  case (start_raise e)
  then show ?thesis by simp
next
  case (poll_error e w2)
  from watch_logs_frame[OF poll_error(2), of Subject] endtest_post[OF poll_error(3)]
  show ?thesis by auto
next
  case (version_fail logsfound w2 error)
  from watch_logs_frame[OF version_fail(2), of Subject] endtest_post[OF version_fail(4)]
  show ?thesis by auto
next
  case (timeout w2 build_version)
  from watch_logs_frame[OF timeout(2), of Subject] endtest_post[OF timeout(4)]
  show ?thesis by auto
next
  case (dump_fail w2 build_version error w3)
  from watch_logs_frame[OF dump_fail(2), of Subject] dump_packages_frame[OF dump_fail(4), of Subject]
    endtest_post[OF dump_fail(5)]
  show ?thesis by auto
next
  case (sleep_raise w2 build_version packages w3 e)
  from watch_logs_frame[OF sleep_raise(2), of Subject] dump_packages_frame[OF sleep_raise(4), of Subject]
    sleep_int_frame[OF sleep_raise(5), of Subject] sleep_raise(6,7)
  show ?thesis by auto
next
  case (no_shot w2 build_version packages w3 w4)
  from watch_logs_frame[OF no_shot(2), of Subject] dump_packages_frame[OF no_shot(4), of Subject]
    sleep_int_frame[OF no_shot(5), of Subject] endtest_post[OF no_shot(7)]
  show ?thesis by auto
next
  case (shot_raise w2 build_version packages w3 w4 e)
  from watch_logs_frame[OF shot_raise(2), of Subject] dump_packages_frame[OF shot_raise(4), of Subject]
    sleep_int_frame[OF shot_raise(5), of Subject] take_screenshot_post[OF shot_raise(7)] shot_raise(8)
  show ?thesis by auto
next
  case (shot w2 build_version packages w3 w4 s4 w5)
  from watch_logs_frame[OF shot(2), of Subject] dump_packages_frame[OF shot(4), of Subject]
    sleep_int_frame[OF shot(5), of Subject] take_screenshot_post[OF shot(7)] endtest_post[OF shot(8)]
  show ?thesis by auto
qed

theorem one_report_one_removal_witness:
  "fst (container_test example_engine ''latest'' example_ci example_world) = None
   \<and> map rep_tag (report_containers
        (fst (snd (container_test example_engine ''latest'' example_ci example_world))))
      = [''latest'']
   \<and> tag_report_tests
        (fst (snd (container_test example_engine ''latest'' example_ci example_world))) = []
   \<and> removed Subject (snd (snd (container_test example_engine ''latest'' example_ci example_world)))
      = 1"
proof -
  let ?c = "container_test example_engine ''latest'' example_ci example_world"
  have c: "?c = (fst ?c, fst (snd ?c), snd (snd ?c))" by simp
  have n: "fst ?c = None"
    by (simp add: example_defs model_defs)
  have e0: "removed Subject example_world = 0" "report_containers example_ci = []"
    by (simp_all add: example_defs removed_def)
  from one_report_one_removal[OF c] n e0 show ?thesis by auto
qed

text \<open>C3 as stated fails on the poll-error path: when the engine fails every log read,
  the read in \<^verbatim>\<open>_endtest\<close> raises as the one in the loop did, the exception leaves
  \<^verbatim>\<open>container_test\<close>, no report is appended and the container is not removed.\<close>

theorem finalization_counterexample:
  "fst (container_test dead_engine ''latest'' example_ci example_world) = Some DockerException
   \<and> report_containers (fst (snd (container_test dead_engine ''latest'' example_ci example_world)))
      = []
   \<and> tag_report_tests (fst (snd (container_test dead_engine ''latest'' example_ci example_world)))
      = [(''Container startup'', ''FAIL'', Text ''INIT NOT FINISHED'')]
   \<and> removed Subject (snd (snd (container_test dead_engine ''latest'' example_ci example_world)))
      = 0"
  by (simp add: example_defs model_defs removed_def)

section \<open>A readiness timeout\<close>

text \<open>
  C2, as the code has it. When the watch ends on its deadline, no command is run in the
  container, and a test that returns has recorded the status \<^verbatim>\<open>FAIL\<close> and a report whose
  packages are the sentinel \<^verbatim>\<open>ERROR\<close>. The build version is still read from the labels,
  before the readiness verdict is recorded: the report carries the label's value with the
  entries \<^verbatim>\<open>Get build version PASS\<close>, \<^verbatim>\<open>Container startup FAIL\<close>, and carries \<^verbatim>\<open>ERROR\<close>
  with the single entry \<^verbatim>\<open>Get build version FAIL\<close> only when the label cannot be read.
\<close>

theorem timeout_report:
  assumes "run_subject E = None"
    and "watch_logs E (now w + 60 * 5)
           (emit (Containers_run (image_name s @ '':'' @ tag) (dockerenv s)) w) = (Done False, w2)"
    and "container_test E tag s w = (r, s', w')"
  shows "execs w' = execs w
     \<and> (r = None \<longrightarrow>
          report_status s' = ''FAIL'' \<and>
          (\<exists>logblob. report_containers s' = report_containers s @
             [\<lparr>rep_tag = tag, rep_logs = logblob, rep_sysinfo = ''ERROR'',
               rep_build_version =
                 (case labels_build_version E of Inl error \<Rightarrow> ''ERROR'' | Inr v \<Rightarrow> v),
               rep_tag_tests = tag_report_tests s @
                 (case labels_build_version E of
                    Inl error \<Rightarrow> [(''Get build version'', ''FAIL'', Err error)]
                  | Inr v \<Rightarrow> [(''Get build version'', ''PASS'', Text ''-''),
                              (''Container startup'', ''FAIL'', Text ''INIT NOT FINISHED'')])\<rparr>]))"
  using assms(3)
proof (cases rule: container_test_cases)
  case (start_raise e)
  with assms(1) show ?thesis by simp
next
  case (poll_error e w2')
  from poll_error(2) assms(2) have False by (metis Pair_inject watch.distinct(1))
  then show ?thesis ..
next
  case (version_fail logsfound w2' error)
  from version_fail(2) assms(2) have "w2' = w2" by (metis Pair_inject)
  with watch_logs_frame[OF assms(2), of Subject] endtest_post[OF version_fail(4)] version_fail(3)
  show ?thesis by auto
next
  case (timeout w2' build_version)
  from timeout(2) assms(2) have "w2' = w2" by (metis Pair_inject)
  with watch_logs_frame[OF assms(2), of Subject] endtest_post[OF timeout(4)] timeout(3)
  show ?thesis by auto
next
  case (dump_fail w2' build_version error w3)
  from dump_fail(2) assms(2) have False by (metis Pair_inject watch.inject(2))
  then show ?thesis ..
next
  case (sleep_raise w2' build_version packages w3 e)
  from sleep_raise(2) assms(2) have False by (metis Pair_inject watch.inject(2))
  then show ?thesis ..
next
  case (no_shot w2' build_version packages w3 w4)
  from no_shot(2) assms(2) have False by (metis Pair_inject watch.inject(2))
  then show ?thesis ..
next
  case (shot_raise w2' build_version packages w3 w4 e)
  from shot_raise(2) assms(2) have False by (metis Pair_inject watch.inject(2))
  then show ?thesis ..
next
  case (shot w2' build_version packages w3 w4 s4 w5)
  from shot(2) assms(2) have False by (metis Pair_inject watch.inject(2))
  then show ?thesis ..
qed

theorem timeout_report_witness:
  "run_subject slow_engine = None
   \<and> watch_logs slow_engine (now example_world + 60 * 5)
        (emit (Containers_run (image_name example_ci @ '':'' @ ''latest'') (dockerenv example_ci))
           example_world)
      = (Done False,
         \<lparr>now = 300,
          trace = [Containers_run ''linuxserver/nginx:latest'' Map.empty,
                   Logs Subject, Sleep 1, Logs Subject, Sleep 1],
          logs_calls = 2\<rparr>)
   \<and> fst (container_test slow_engine ''latest'' example_ci example_world) = None
   \<and> execs (snd (snd (container_test slow_engine ''latest'' example_ci example_world))) = 0
   \<and> report_status (fst (snd (container_test slow_engine ''latest'' example_ci example_world)))
        = ''FAIL''
   \<and> map rep_sysinfo (report_containers
        (fst (snd (container_test slow_engine ''latest'' example_ci example_world)))) = [''ERROR'']
   \<and> map rep_build_version (report_containers
        (fst (snd (container_test slow_engine ''latest'' example_ci example_world)))) = [''v1.0'']"
proof -
  let ?c = "container_test slow_engine ''latest'' example_ci example_world"
  have r: "run_subject slow_engine = None"
    by (simp add: example_defs)
  have wl: "watch_logs slow_engine (now example_world + 60 * 5)
        (emit (Containers_run (image_name example_ci @ '':'' @ ''latest'') (dockerenv example_ci))
           example_world)
      = (Done False,
         \<lparr>now = 300,
          trace = [Containers_run ''linuxserver/nginx:latest'' Map.empty,
                   Logs Subject, Sleep 1, Logs Subject, Sleep 1],
          logs_calls = 2\<rparr>)"
    by (simp add: example_defs model_defs)
  have c: "?c = (fst ?c, fst (snd ?c), snd (snd ?c))" by simp
  have n: "fst ?c = None"
    by (simp add: example_defs model_defs)
  have l: "labels_build_version slow_engine = Inr ''v1.0''"
    by (simp add: example_defs)
  have e0: "execs example_world = 0" "report_containers example_ci = []"
    by (simp_all add: example_defs execs_def)
  from timeout_report[OF r wl c] n l e0 show ?thesis
    using r wl by auto
qed

text \<open>C2 as stated fails: the container never prints a marker, the watch ends on its
  deadline, and the report's build version is the label \<^verbatim>\<open>v1.0\<close>, not \<^verbatim>\<open>ERROR\<close>; the
  version check was made and passed.\<close>

theorem timeout_counterexample:
  "fst (watch_logs slow_engine (now example_world + 60 * 5)
        (emit (Containers_run (image_name example_ci @ '':'' @ ''latest'') (dockerenv example_ci))
           example_world)) = Done False
   \<and> map rep_build_version (report_containers
        (fst (snd (container_test slow_engine ''latest'' example_ci example_world)))) = [''v1.0'']
   \<and> map rep_tag_tests (report_containers
        (fst (snd (container_test slow_engine ''latest'' example_ci example_world))))
      = [[(''Get build version'', ''PASS'', Text ''-''),
          (''Container startup'', ''FAIL'', Text ''INIT NOT FINISHED'')]]
   \<and> ''v1.0'' \<noteq> ''ERROR''"
  by (simp add: example_defs model_defs)

section \<open>An unknown base family\<close>

lemma package_command_unknown:
  "base s \<notin> {''alpine'', ''debian'', ''ubuntu'', ''fedora'', ''arch''} \<Longrightarrow> package_command s = None"
  by (simp add: package_command_def)

lemma check_env_accepts:
  "missing_key environ = None \<Longrightarrow>
   \<exists>c. check_env environ log_upload s0 = Inr c \<and> base c = the (environ ''BASE'')"
  by (simp add: check_env_def)

text \<open>
  C6, as the code has it. \<^verbatim>\<open>check_env\<close> only requires that \<^verbatim>\<open>BASE\<close> is set: with all
  six keys present it accepts any value. A family other than the five known ones shows up
  only inside the running test: once the container has started, shown a marker and given its
  build version, the package dump raises on the unbound \<^verbatim>\<open>command\<close> before anything is sent
  to the container, and the test ends as a failed package dump: entry
  \<^verbatim>\<open>Dump package info FAIL\<close>, packages \<^verbatim>\<open>ERROR\<close>, status \<^verbatim>\<open>FAIL\<close>.
\<close>

theorem unknown_base_is_dump_failure:
  assumes "base s \<notin> {''alpine'', ''debian'', ''ubuntu'', ''fedora'', ''arch''}"
    and "run_subject E = None"
    and "watch_logs E (now w + 60 * 5)
           (emit (Containers_run (image_name s @ '':'' @ tag) (dockerenv s)) w) = (Done True, w2)"
    and "labels_build_version E = Inr build_version"
    and "container_test E tag s w = (r, s', w')"
  shows "execs w' = execs w
     \<and> (r = None \<longrightarrow>
          report_status s' = ''FAIL'' \<and>
          (\<exists>logblob. report_containers s' = report_containers s @
             [\<lparr>rep_tag = tag, rep_logs = logblob, rep_sysinfo = ''ERROR'',
               rep_build_version = build_version,
               rep_tag_tests = tag_report_tests s @
                 [(''Get build version'', ''PASS'', Text ''-''),
                  (''Container startup'', ''PASS'', Text ''-''),
                  (''Dump package info'', ''FAIL'', Err UnboundLocalError)]\<rparr>]))
     \<and> (missing_key environ = None \<longrightarrow>
          (\<exists>c. check_env environ log_upload s0 = Inr c \<and> base c = the (environ ''BASE'')))"
proof -
  note pc = package_command_unknown[OF assms(1)]
  have dp: "dump_packages E (package_command s) w2 = (Inl UnboundLocalError, w2)"
    by (simp add: pc dump_packages_def)
  have main: "execs w' = execs w
     \<and> (r = None \<longrightarrow>
          report_status s' = ''FAIL'' \<and>
          (\<exists>logblob. report_containers s' = report_containers s @
             [\<lparr>rep_tag = tag, rep_logs = logblob, rep_sysinfo = ''ERROR'',
               rep_build_version = build_version,
               rep_tag_tests = tag_report_tests s @
                 [(''Get build version'', ''PASS'', Text ''-''),
                  (''Container startup'', ''PASS'', Text ''-''),
                  (''Dump package info'', ''FAIL'', Err UnboundLocalError)]\<rparr>]))"
    using assms(5)
  proof (cases rule: container_test_cases)
    case (start_raise e)
    with assms(2) show ?thesis by simp
  next
    case (poll_error e w2')
    from poll_error(2) assms(3) have False by (metis Pair_inject watch.distinct(1))
    then show ?thesis ..
  next
    case (version_fail logsfound w2' error)
    with assms(4) show ?thesis by simp
  next
    case (timeout w2' bv)
    from timeout(2) assms(3) have False by (metis Pair_inject watch.inject(2))
    then show ?thesis ..
  next
    case (dump_fail w2' bv error w3)
    from dump_fail(2) assms(3) have w: "w2' = w2" by (metis Pair_inject)
    from dump_fail(4) dp w have e: "error = UnboundLocalError" "w3 = w2" by simp_all
    from dump_fail(3) assms(4) have bv: "bv = build_version" by simp
    from watch_logs_frame[OF assms(3), of Subject] endtest_post[OF dump_fail(5)] e bv
    show ?thesis by auto
  next
    case (sleep_raise w2' bv packages w3 e)
    from sleep_raise(2) assms(3) have "w2' = w2" by (metis Pair_inject)
    with sleep_raise(4) dp show ?thesis by simp
  next
    case (no_shot w2' bv packages w3 w4)
    from no_shot(2) assms(3) have "w2' = w2" by (metis Pair_inject)
    with no_shot(4) dp show ?thesis by simp
  next
    case (shot_raise w2' bv packages w3 w4 e)
    from shot_raise(2) assms(3) have "w2' = w2" by (metis Pair_inject)
    with shot_raise(4) dp show ?thesis by simp
  next
    case (shot w2' bv packages w3 w4 s4 w5)
    from shot(2) assms(3) have "w2' = w2" by (metis Pair_inject)
    with shot(4) dp show ?thesis by simp
  qed
  with check_env_accepts[of environ log_upload s0] show ?thesis by blast
qed

theorem unknown_base_is_dump_failure_witness:
  "check_env gentoo_environ None example_ci = Inr gentoo_ci
   \<and> base gentoo_ci = ''gentoo''
   \<and> fst (container_test example_engine ''latest'' gentoo_ci example_world) = None
   \<and> execs (snd (snd (container_test example_engine ''latest'' gentoo_ci example_world))) = 0
   \<and> report_status (fst (snd (container_test example_engine ''latest'' gentoo_ci example_world)))
      = ''FAIL''
   \<and> map rep_sysinfo (report_containers
        (fst (snd (container_test example_engine ''latest'' gentoo_ci example_world))))
      = [''ERROR'']
   \<and> map rep_tag_tests (report_containers
        (fst (snd (container_test example_engine ''latest'' gentoo_ci example_world))))
      = [[(''Get build version'', ''PASS'', Text ''-''),
          (''Container startup'', ''PASS'', Text ''-''),
          (''Dump package info'', ''FAIL'', Err UnboundLocalError)]]"
proof -
  let ?c = "container_test example_engine ''latest'' gentoo_ci example_world"
  have b: "base gentoo_ci \<notin> {''alpine'', ''debian'', ''ubuntu'', ''fedora'', ''arch''}"
    by (simp add: example_defs)
  have r: "run_subject example_engine = None"
    by (simp add: example_defs)
  have wl: "watch_logs example_engine (now example_world + 60 * 5)
        (emit (Containers_run (image_name gentoo_ci @ '':'' @ ''latest'') (dockerenv gentoo_ci))
           example_world)
      = (Done True,
         \<lparr>now = 0,
          trace = [Containers_run ''linuxserver/nginx:latest'' Map.empty, Logs Subject],
          logs_calls = 1\<rparr>)"
    by (simp add: example_defs model_defs)
  have l: "labels_build_version example_engine = Inr ''v1.0''"
    by (simp add: example_defs)
  have c: "?c = (fst ?c, fst (snd ?c), snd (snd ?c))" by simp
  have n: "fst ?c = None"
    by (simp add: example_defs model_defs)
  have m: "missing_key gentoo_environ = None"
    by (simp add: missing_key_def gentoo_environ_def)
  have ce: "check_env gentoo_environ None example_ci = Inr gentoo_ci"
    by (simp add: check_env_def m) (simp add: gentoo_environ_def example_defs str_in_def sublist_Cons_right)
  have e0: "execs example_world = 0" "report_containers gentoo_ci = []"
    "tag_report_tests gentoo_ci = []" "base gentoo_ci = ''gentoo''"
    by (simp_all add: example_defs execs_def)
  from unknown_base_is_dump_failure[OF b r wl l c, of gentoo_environ None example_ci] n e0 m ce
  show ?thesis by auto
qed

text \<open>C6 as stated fails: configuration loading accepts the family \<^verbatim>\<open>gentoo\<close>, the first
  call issued is the start of the container, and the outcome is reported as a failed package
  dump of that container.\<close>

theorem unknown_base_counterexample:
  "init gentoo_environ None None ''/app'' = Inr gentoo_ci
   \<and> map is_run (trace (snd (snd (container_test example_engine ''latest'' gentoo_ci example_world))))
      = [True, False, False, False]
   \<and> map rep_tag_tests (report_containers
        (fst (snd (container_test example_engine ''latest'' gentoo_ci example_world))))
      = [[(''Get build version'', ''PASS'', Text ''-''),
          (''Container startup'', ''PASS'', Text ''-''),
          (''Dump package info'', ''FAIL'', Err UnboundLocalError)]]"
proof -
  have m: "missing_key gentoo_environ = None"
    by (simp add: missing_key_def gentoo_environ_def)
  have "init gentoo_environ None None ''/app'' = Inr gentoo_ci"
    by (simp add: init_def convert_env_def environ_get_def check_env_def m)
       (simp add: gentoo_environ_def example_defs str_in_def sublist_Cons_right)
  then show ?thesis
    by (simp add: example_defs model_defs)
qed

section \<open>The order of the recorded checks\<close>

lemma screenshot_failure_not_pass: "screenshot_failure e \<noteq> ''PASS''"
  by (simp add: screenshot_failure_def)

text \<open>
  C9. A test that starts with an empty accumulator, returns, and has recorded nothing but
  \<^verbatim>\<open>PASS\<close> outcomes has recorded exactly \<^verbatim>\<open>Get build version\<close>, \<^verbatim>\<open>Container startup\<close>,
  \<^verbatim>\<open>Dump package info\<close>, in this order, followed by \<^verbatim>\<open>Get screenshot\<close> when the screenshot
  is switched on: the build version is recorded before the readiness verdict.
\<close>

theorem successful_run_order:
  assumes "container_test E tag s w = (None, s', w')"
    and "tag_report_tests s = []"
    and "\<forall>t \<in> set (rep_tag_tests (last (report_containers s'))). fst (snd t) = ''PASS''"
  shows "rep_tag_tests (last (report_containers s')) =
           [(''Get build version'', ''PASS'', Text ''-''),
            (''Container startup'', ''PASS'', Text ''-''),
            (''Dump package info'', ''PASS'', Text ''-'')]
           @ (if screenshot s = ''true'' then [(''Get screenshot'', ''PASS'', Text ''-'')] else [])"
  using assms(1)
proof (cases rule: container_test_cases)
  case (start_raise e)
  then show ?thesis by simp
next
  case (poll_error e w2)
  from endtest_post[OF poll_error(3)] assms(2,3) show ?thesis by auto
next
  case (version_fail logsfound w2 error)
  from endtest_post[OF version_fail(4)] assms(2,3) show ?thesis by auto
next
  case (timeout w2 build_version)
  from endtest_post[OF timeout(4)] assms(2,3) show ?thesis by auto
next
  case (dump_fail w2 build_version error w3)
  from endtest_post[OF dump_fail(5)] assms(2,3) show ?thesis by auto
next
  case (sleep_raise w2 build_version packages w3 e)
  then show ?thesis by simp
next
  case (no_shot w2 build_version packages w3 w4)
  from endtest_post[OF no_shot(7)] assms(2) no_shot(6) show ?thesis by auto
next
  case (shot_raise w2 build_version packages w3 w4 e)
  then show ?thesis by simp
next
  case (shot w2 build_version packages w3 w4 s4 w5)
  from endtest_post[OF shot(8)] have
    l: "rep_tag_tests (last (report_containers s')) = tag_report_tests s4" by auto
  from take_screenshot_post[OF shot(7)] assms(2) obtain new where
    n: "tag_report_tests s4 =
           [(''Get build version'', ''PASS'', Text ''-''),
            (''Container startup'', ''PASS'', Text ''-''),
            (''Dump package info'', ''PASS'', Text ''-'')] @ new"
    and c: "new = [shot_pass] \<or> (\<exists>e. new = [shot_fail e] \<or> new = [shot_pass, shot_fail e])"
    by auto
  from assms(3) l n have "\<forall>t \<in> set new. fst (snd t) = ''PASS''" by simp
  with c have "new = [shot_pass]"
    by (auto simp: shot_fail_def screenshot_failure_not_pass)
  with l n shot(6) show ?thesis by (simp add: shot_pass_def)
qed

theorem successful_run_order_witness:
  "fst (container_test example_engine ''latest'' shot_ci example_world) = None
   \<and> tag_report_tests shot_ci = []
   \<and> rep_tag_tests (last (report_containers
        (fst (snd (container_test example_engine ''latest'' shot_ci example_world))))) =
           [(''Get build version'', ''PASS'', Text ''-''),
            (''Container startup'', ''PASS'', Text ''-''),
            (''Dump package info'', ''PASS'', Text ''-''),
            (''Get screenshot'', ''PASS'', Text ''-'')]"
proof -
  let ?c = "container_test example_engine ''latest'' shot_ci example_world"
  have n: "fst ?c = None"
    by (simp add: example_defs model_defs)
  then have c: "?c = (None, fst (snd ?c), snd (snd ?c))"
    by (metis prod.collapse)
  have e: "tag_report_tests shot_ci = []" "screenshot shot_ci = ''true''"
    by (simp_all add: example_defs)
  have p: "\<forall>t \<in> set (rep_tag_tests (last (report_containers (fst (snd ?c))))). fst (snd t) = ''PASS''"
    by (simp add: example_defs model_defs)
  from successful_run_order[OF c e(1) p] n e show ?thesis by simp
qed

section \<open>The screenshot step past the helper's start\<close>








end
